theory Spec2Isabelle
  imports Main "HOL-Library.AList" "HOL-Library.Word"
begin

section \<open>JavaScript values and strings\<close>

text \<open>
  Parameter and column values are the scalars of JavaScript. A string is the list of its
  code units, read as characters below 256. A Number is modelled when it is an integer
  from \<^verbatim>\<open>-2^53\<close> to \<^verbatim>\<open>2^53 - 1\<close>: a 54-bit word read in two's complement (\<open>sint\<close>).
  JavaScript holds each of these exactly and prints it in plain decimal. Fractions, NaN,
  the infinities and larger magnitudes, which print rounded or in exponent form, are no
  values of the model.
\<close>

type_synonym safe_int = "54 word"

datatype jsval = JUndefined | JNull | JBool bool | JNum safe_int | JStr string

text \<open>The truthiness test of \<^verbatim>\<open>if (v)\<close> and \<^verbatim>\<open>v || d\<close>.\<close>

fun truthy :: "jsval \<Rightarrow> bool" where
  "truthy JUndefined = False"
| "truthy JNull = False"
| "truthy (JBool b) = b"
| "truthy (JNum n) = (n \<noteq> 0)"
| "truthy (JStr s) = (s \<noteq> [])"

text \<open>The decimal digits of a natural number.\<close>

definition digit_char :: "nat \<Rightarrow> char" where
  "digit_char d = ''0123456789'' ! d"

fun string_of_nat :: "nat \<Rightarrow> string" where
  "string_of_nat n =
     (if n < 10 then [digit_char n] else string_of_nat (n div 10) @ [digit_char (n mod 10)])"

declare string_of_nat.simps [simp del]

text \<open>\<^verbatim>\<open>String(n)\<close> for a Number of the model: its decimal digits, with a sign if negative.\<close>

definition number_to_string :: "safe_int \<Rightarrow> string" where
  "number_to_string n =
     (if sint n < 0 then CHR ''-'' # string_of_nat (nat (- sint n))
      else string_of_nat (nat (sint n)))"

text \<open>What a template literal \<^verbatim>\<open>`${v}`\<close> inserts for a value.\<close>

fun to_string :: "jsval \<Rightarrow> string" where
  "to_string JUndefined = ''undefined''"
| "to_string JNull = ''null''"
| "to_string (JBool b) = (if b then ''true'' else ''false'')"
| "to_string (JNum n) = number_to_string n"
| "to_string (JStr s) = s"

text \<open>\<^verbatim>\<open>s.split(",")\<close>: the pieces between the commas; never an empty array.\<close>

fun split_comma :: "string \<Rightarrow> string list" where
  "split_comma [] = [[]]"
| "split_comma (c # cs) =
     (if c = CHR '','' then [] # split_comma cs
      else (case split_comma cs of
              [] \<Rightarrow> [[c]]
            | piece # pieces \<Rightarrow> (c # piece) # pieces))"

text \<open>
  \<^verbatim>\<open>s.trim()\<close> removes white space and line terminators at both ends: among the code
  units below 256 these are tab, line feed, vertical tab, form feed, carriage return,
  space and the no-break space.
\<close>

definition is_space :: "char \<Rightarrow> bool" where
  "is_space c = (of_char c \<in> {9, 10, 11, 12, 13, 32, 160 :: nat})"

definition trim :: "string \<Rightarrow> string" where
  "trim s = rev (dropWhile is_space (rev (dropWhile is_space s)))"

text \<open>\<^verbatim>\<open>xs.join(sep)\<close> on an array of strings.\<close>

fun join :: "string \<Rightarrow> string list \<Rightarrow> string" where
  "join sep [] = []"
| "join sep [x] = x"
| "join sep (x # y # ys) = x @ sep @ join sep (y # ys)"

text \<open>\<^verbatim>\<open>str.split(",").map((p) => p.trim())\<close>, the parameters of a statement.\<close>

definition split_params :: "string \<Rightarrow> jsval list" where
  "split_params s = map (\<lambda>p. JStr (trim p)) (split_comma s)"

section \<open>Errors\<close>

text \<open>
  A thrown value is an error object: its constructor's name, its message and, for the
  errors of the driver, a code.
\<close>

record js_error =
  err_name :: string
  err_message :: string
  err_code :: "string option"

definition mk_error :: "string \<Rightarrow> js_error" where
  "mk_error msg = \<lparr>err_name = ''Error'', err_message = msg, err_code = None\<rparr>"

definition type_error :: "string \<Rightarrow> js_error" where
  "type_error msg = \<lparr>err_name = ''TypeError'', err_message = msg, err_code = None\<rparr>"

text \<open>\<^verbatim>\<open>error.toString()\<close> as Error.prototype.toString defines it.\<close>

definition error_toString :: "js_error \<Rightarrow> string" where
  "error_toString e =
     (if err_message e = [] then err_name e
      else if err_name e = [] then err_message e
      else err_name e @ '': '' @ err_message e)"

section \<open>Operation parameters\<close>

type_synonym entries = "(string \<times> jsval) list"

text \<open>
  The value of the \<^verbatim>\<open>columnsMap\<close> parameter: a string holding JSON text, a falsy value,
  or any other value, which the code only reads through \<^verbatim>\<open>Object.entries\<close>. An object
  is given by its entries in enumeration order, with distinct keys.
\<close>

datatype columns_map = MapText string | MapFalsy | MapValue entries

text \<open>
  The parameters \<^verbatim>\<open>getNodeParameter\<close> resolves, typed as the node's property list
  declares them. Only \<^verbatim>\<open>columnsMap\<close> is read with the item's index.
\<close>

record node_params =
  operation :: string
  query :: string
  queryParams :: string
  table :: string
  columns :: string
  whereClause :: string
  whereParams :: string
  returnAll :: bool
  limit :: jsval
  orderBy :: string
  returnFields :: string
  columnsMap :: "nat \<Rightarrow> columns_map"

text \<open>
  \<^verbatim>\<open>JSON.parse\<close> is the engine's: it throws a SyntaxError with a message (\<open>Inl\<close>), or
  returns \<^verbatim>\<open>null\<close> (\<open>None\<close>) or a value given by its entries.
\<close>

type_synonym json_parser = "string \<Rightarrow> string + entries option"

section \<open>Building the statement\<close>

text \<open>
  The data of an insert or update: the parsed text or \<^verbatim>\<open>columnsMap || {}\<close>, read
  by \<^verbatim>\<open>Object.entries(data)\<close>, which throws a TypeError on \<^verbatim>\<open>null\<close>.
\<close>

definition data_entries :: "json_parser \<Rightarrow> columns_map \<Rightarrow> js_error + entries" where
  "data_entries parse cm =
     (case cm of
        MapText s \<Rightarrow>
          (case parse s of
             Inl m \<Rightarrow> Inl (mk_error (''Invalid JSON in columnsMap: '' @ m))
           | Inr None \<Rightarrow> Inl (type_error ''Cannot convert undefined or null to object'')
           | Inr (Some es) \<Rightarrow> Inr es)
      | MapFalsy \<Rightarrow> Inr []
      | MapValue es \<Rightarrow> Inr es)"

text \<open>
  \<^verbatim>\<open>filteredData[key] = value\<close> on a plain object: the key \<^verbatim>\<open>__proto__\<close> reaches the
  setter of Object.prototype, which creates no own property for a scalar; any other key
  is overwritten in place or added last.
\<close>

definition set_prop :: "string \<Rightarrow> jsval \<Rightarrow> entries \<Rightarrow> entries" where
  "set_prop k v obj = (if k = ''__proto__'' then obj else AList.update k v obj)"

definition keep_value :: "jsval \<Rightarrow> bool" where
  "keep_value v = (v \<noteq> JStr [] \<and> v \<noteq> JNull \<and> v \<noteq> JUndefined)"

definition filteredData :: "entries \<Rightarrow> entries" where
  "filteredData es =
     fold (\<lambda>(k, v) acc. if keep_value v then set_prop k v acc else acc) es []"

text \<open>\<^verbatim>\<open>values.map((_, i) => `$${i + 1}`).join(", ")\<close>\<close>

definition placeholders :: "jsval list \<Rightarrow> string" where
  "placeholders vals =
     join '', '' (map (\<lambda>i. ''$'' @ string_of_nat (i + 1)) [0..<length vals])"

text \<open>\<^verbatim>\<open>columns.map(col => `"${col}"`).join(", ")\<close>\<close>

definition quotedColumns :: "string list \<Rightarrow> string" where
  "quotedColumns cols = join '', '' (map (\<lambda>col. ''\"'' @ col @ ''\"'') cols)"

text \<open>\<^verbatim>\<open>columns.map((col, i) => `"${col}" = $${i + 1}`).join(", ")\<close>\<close>

definition setClause :: "string list \<Rightarrow> string" where
  "setClause cols =
     join '', ''
       (map (\<lambda>(col, i). ''\"'' @ col @ ''\" = $'' @ string_of_nat (i + 1))
            (zip cols [0..<length cols]))"

type_synonym statement = "string \<times> jsval list"

definition or_star :: "string \<Rightarrow> string" where
  "or_star s = (if s = [] then ''*'' else s)"

definition build_executeQuery :: "node_params \<Rightarrow> js_error + statement" where
  "build_executeQuery p =
     Inr (query p, if queryParams p \<noteq> [] then split_params (queryParams p) else [])"

definition build_select :: "node_params \<Rightarrow> js_error + statement" where
  "build_select p =
     (let lim = (if returnAll p then JNull else limit p);
          t0 = ''SELECT '' @ or_star (columns p) @ '' FROM '' @ table p;
          t1 = (if whereClause p \<noteq> [] then t0 @ '' WHERE '' @ whereClause p else t0);
          ps = (if whereClause p \<noteq> [] \<and> whereParams p \<noteq> []
                then split_params (whereParams p) else []);
          t2 = (if orderBy p \<noteq> [] then t1 @ '' ORDER BY '' @ orderBy p else t1);
          t3 = (if truthy lim then t2 @ '' LIMIT '' @ to_string lim else t2)
      in Inr (t3, ps))"

definition build_insert :: "json_parser \<Rightarrow> node_params \<Rightarrow> nat \<Rightarrow> js_error + statement" where
  "build_insert parse p i =
     (case data_entries parse (columnsMap p i) of
        Inl e \<Rightarrow> Inl e
      | Inr es \<Rightarrow>
          (let fd = filteredData es in
           if length fd = 0
           then Inl (mk_error ''No data provided for insert. Please map at least one column.'')
           else Inr (''INSERT INTO '' @ table p @ '' ('' @ quotedColumns (map fst fd)
                       @ '') VALUES ('' @ placeholders (map snd fd)
                       @ '') RETURNING '' @ or_star (returnFields p),
                     map snd fd)))"

definition build_update :: "json_parser \<Rightarrow> node_params \<Rightarrow> nat \<Rightarrow> js_error + statement" where
  "build_update parse p i =
     (if whereClause p = []
      then Inl (mk_error
        ''WHERE clause is required for UPDATE operation to prevent accidental updates'')
      else
        (case data_entries parse (columnsMap p i) of
           Inl e \<Rightarrow> Inl e
         | Inr es \<Rightarrow>
             (let fd = filteredData es in
              if length fd = 0
              then Inl (mk_error ''No data provided for update. Please map at least one column.'')
              else Inr (''UPDATE '' @ table p @ '' SET '' @ setClause (map fst fd)
                          @ '' WHERE '' @ whereClause p
                          @ '' RETURNING '' @ or_star (returnFields p),
                        map snd fd
                          @ (if whereParams p \<noteq> [] then split_params (whereParams p) else [])))))"

definition build_delete :: "node_params \<Rightarrow> js_error + statement" where
  "build_delete p =
     (if whereClause p = []
      then Inl (mk_error
        ''WHERE clause is required for DELETE operation to prevent accidental deletion'')
      else Inr (''DELETE FROM '' @ table p @ '' WHERE '' @ whereClause p,
                if whereParams p \<noteq> [] then split_params (whereParams p) else []))"

text \<open>
  Everything a case of the \<^verbatim>\<open>switch (operation)\<close> does before it calls
  \<^verbatim>\<open>pool.query\<close>: the statement, or the error thrown before any query.
\<close>

definition build :: "json_parser \<Rightarrow> node_params \<Rightarrow> nat \<Rightarrow> js_error + statement" where
  "build parse p i =
     (if operation p = ''executeQuery'' then build_executeQuery p
      else if operation p = ''select'' then build_select p
      else if operation p = ''insert'' then build_insert parse p i
      else if operation p = ''update'' then build_update parse p i
      else if operation p = ''delete'' then build_delete p
      else Inl (mk_error (''Unknown operation: '' @ operation p)))"

section \<open>The driver and the pool\<close>

type_synonym row = "(string \<times> jsval) list"

text \<open>
  What \<^verbatim>\<open>pool.query\<close> resolves to. Of each field the code reads the name and the
  \<^verbatim>\<open>dataTypeID\<close>, the pairs of \<open>result_fields\<close>; \<open>None\<close> is a result without fields.
\<close>

record query_result =
  rows :: "row list"
  rowCount :: jsval
  command :: jsval
  result_fields :: "(string \<times> jsval) list option"

datatype ssl_option = SslOff | SslNoVerify

text \<open>The object given to \<^verbatim>\<open>new Pool\<close>.\<close>

record pool_config =
  cfg_host :: string
  cfg_port :: safe_int
  cfg_database :: string
  cfg_user :: string
  cfg_password :: string
  cfg_ssl :: ssl_option
  cfg_max :: nat
  cfg_idleTimeoutMillis :: "int option"
  cfg_connectionTimeoutMillis :: int

text \<open>
  The world outside: the pools created, the queries sent to the driver, in order, and
  the number of calls of \<^verbatim>\<open>pool.end\<close>, which is taken to resolve.
\<close>

record world =
  created :: "pool_config list"
  sent :: "statement list"
  ended :: nat

text \<open>
  The driver is the only I/O boundary. It answers a query from everything sent so far
  (the last entry is the query itself), so it may keep any state.
\<close>

type_synonym driver = "statement list \<Rightarrow> js_error + query_result"

definition new_Pool :: "pool_config \<Rightarrow> world \<Rightarrow> world" where
  "new_Pool cfg w = w\<lparr>created := created w @ [cfg]\<rparr>"

definition pool_query :: "driver \<Rightarrow> statement \<Rightarrow> world \<Rightarrow> (js_error + query_result) \<times> world" where
  "pool_query drv st w = (let h = sent w @ [st] in (drv h, w\<lparr>sent := h\<rparr>))"

definition pool_end :: "world \<Rightarrow> world" where
  "pool_end w = w\<lparr>ended := ended w + 1\<rparr>"

section \<open>The batch run\<close>

text \<open>The \<^verbatim>\<open>json\<close> of an element of \<^verbatim>\<open>results\<close>, one shape for each operation.\<close>

datatype out_json =
    QueryOut "row list" jsval jsval "(string \<times> jsval) list option"
  | SelectOut "row list" jsval
  | InsertOut "row option" jsval
  | UpdateOut "row list" jsval
  | DeleteOut bool jsval
  | ErrorOut bool string string

definition shape :: "string \<Rightarrow> query_result \<Rightarrow> out_json" where
  "shape op r =
     (if op = ''executeQuery'' then QueryOut (rows r) (rowCount r) (command r) (result_fields r)
      else if op = ''select'' then SelectOut (rows r) (rowCount r)
      else if op = ''insert''
        then InsertOut (case rows r of [] \<Rightarrow> None | x # _ \<Rightarrow> Some x) (rowCount r)
      else if op = ''update'' then UpdateOut (rows r) (rowCount r)
      else DeleteOut True (rowCount r))"

text \<open>
  The body of the inner \<^verbatim>\<open>try\<close> for item \<open>i\<close>: build the statement, send it, shape the
  answer. \<open>Inl\<close> is the error that reaches the \<^verbatim>\<open>catch\<close>.
\<close>

definition item_body ::
  "driver \<Rightarrow> json_parser \<Rightarrow> node_params \<Rightarrow> nat \<Rightarrow> world \<Rightarrow> (js_error + out_json) \<times> world" where
  "item_body drv parse p i w =
     (case build parse p i of
        Inl e \<Rightarrow> (Inl e, w)
      | Inr st \<Rightarrow>
          (case pool_query drv st w of
             (Inl e, w') \<Rightarrow> (Inl e, w')
           | (Inr r, w') \<Rightarrow> (Inr (shape (operation p) r), w')))"

text \<open>The element pushed by the \<^verbatim>\<open>catch\<close> under continue-on-fail.\<close>

definition error_record :: "js_error \<Rightarrow> out_json" where
  "error_record e = ErrorOut True (err_message e) (error_toString e)"

text \<open>
  The \<^verbatim>\<open>for\<close> loop from index \<open>i\<close> over the items still to process, with the
  \<^verbatim>\<open>results\<close> pushed so far. \<open>Inl\<close> is the error re-thrown by the \<^verbatim>\<open>catch\<close>.
\<close>

fun item_loop ::
  "driver \<Rightarrow> json_parser \<Rightarrow> node_params \<Rightarrow> bool \<Rightarrow> nat \<Rightarrow> 'item list \<Rightarrow> out_json list \<Rightarrow> world
     \<Rightarrow> (js_error + out_json list) \<times> world" where
  "item_loop drv parse p cof i [] results w = (Inr results, w)"
| "item_loop drv parse p cof i (item # rest) results w =
     (case item_body drv parse p i w of
        (Inr j, w') \<Rightarrow> item_loop drv parse p cof (Suc i) rest (results @ [j]) w'
      | (Inl e, w') \<Rightarrow>
          if cof then item_loop drv parse p cof (Suc i) rest (results @ [error_record e]) w'
          else (Inl e, w'))"

record settings =
  continueOnFail :: "bool option"
  connectionTimeout :: "int option"
  ssl :: "bool option"

record credentials =
  host :: string
  port :: safe_int
  database :: string
  user :: string
  password :: string
  cred_ssl :: "bool option"

text \<open>
  What the node is run with: \<^verbatim>\<open>this.settings\<close> (possibly undefined), the outcome
  of \<^verbatim>\<open>this.getCredentials("postgresDb")\<close> and the resolved parameters.
\<close>

record node_context =
  ctx_settings :: "settings option"
  getCredentials :: "js_error + credentials option"
  params :: node_params

type_synonym item = "(string \<times> jsval) list"

text \<open>\<^verbatim>\<open>inputData.main?.[0] || []\<close>\<close>

definition input_items :: "item list list option \<Rightarrow> item list" where
  "input_items main =
     (case main of None \<Rightarrow> [] | Some [] \<Rightarrow> [] | Some (first # _) \<Rightarrow> first)"

text \<open>\<^verbatim>\<open>items.length > 0 ? items : [{ json: {} }]\<close>\<close>

definition itemsToProcess :: "item list \<Rightarrow> item list" where
  "itemsToProcess items = (if length items > 0 then items else [[]])"

text \<open>\<^verbatim>\<open>this.settings?.continueOnFail ?? false\<close>\<close>

definition continueOnFail_setting :: "settings option \<Rightarrow> bool" where
  "continueOnFail_setting st =
     (case st of
        None \<Rightarrow> False
      | Some s \<Rightarrow> (case continueOnFail s of None \<Rightarrow> False | Some b \<Rightarrow> b))"

text \<open>\<^verbatim>\<open>this.settings?.ssl ?? credentials.ssl ?? false\<close>\<close>

definition ssl_setting :: "settings option \<Rightarrow> credentials \<Rightarrow> bool" where
  "ssl_setting st c =
     (case (case st of None \<Rightarrow> None | Some s \<Rightarrow> ssl s) of
        Some b \<Rightarrow> b
      | None \<Rightarrow> (case cred_ssl c of Some b \<Rightarrow> b | None \<Rightarrow> False))"

text \<open>\<^verbatim>\<open>this.settings?.connectionTimeout ?? d\<close>\<close>

definition connectionTimeout_setting :: "settings option \<Rightarrow> int \<Rightarrow> int" where
  "connectionTimeout_setting st d =
     (case (case st of None \<Rightarrow> None | Some s \<Rightarrow> connectionTimeout s) of
        Some t \<Rightarrow> t
      | None \<Rightarrow> d)"

definition ssl_config :: "bool \<Rightarrow> ssl_option" where
  "ssl_config b = (if b then SslNoVerify else SslOff)"

definition port_or_default :: "safe_int \<Rightarrow> safe_int" where
  "port_or_default n = (if n \<noteq> 0 then n else 5432)"

definition credentials_required :: string where
  "credentials_required =
     ''PostgreSQL credentials are required. Please select credentials in the Authentication field.''"

text \<open>
  The first \<^verbatim>\<open>try\<close> of \<^verbatim>\<open>execute\<close>: the credentials, or the error it throws again
  as \<^verbatim>\<open>Failed to get credentials\<close>.
\<close>

definition resolve_credentials :: "js_error + credentials option \<Rightarrow> js_error + credentials" where
  "resolve_credentials g =
     (case (case g of
              Inl e \<Rightarrow> Inl e
            | Inr None \<Rightarrow> Inl (mk_error credentials_required)
            | Inr (Some c) \<Rightarrow>
                if host c = [] then Inl (mk_error credentials_required) else Inr c) of
        Inl e \<Rightarrow> Inl (mk_error (''Failed to get credentials: '' @ err_message e))
      | Inr c \<Rightarrow> Inr c)"

definition execute_pool_config :: "settings option \<Rightarrow> credentials \<Rightarrow> pool_config" where
  "execute_pool_config st c =
     \<lparr>cfg_host = host c, cfg_port = port_or_default (port c), cfg_database = database c,
      cfg_user = user c, cfg_password = password c,
      cfg_ssl = ssl_config (ssl_setting st c), cfg_max = 10,
      cfg_idleTimeoutMillis = Some 30000,
      cfg_connectionTimeoutMillis = connectionTimeout_setting st 2000\<rparr>"

text \<open>
  \<^verbatim>\<open>execute\<close>: \<open>Inl\<close> is the error thrown to the caller, \<open>Inr\<close> the \<^verbatim>\<open>results\<close>
  returned as \<^verbatim>\<open>[{ main: results }]\<close>. The pool is ended in the \<^verbatim>\<open>finally\<close>.
\<close>

definition execute ::
  "driver \<Rightarrow> json_parser \<Rightarrow> node_context \<Rightarrow> item list list option \<Rightarrow> world
     \<Rightarrow> (js_error + out_json list) \<times> world" where
  "execute drv parse ctx main w =
     (let todo = itemsToProcess (input_items main);
          cof = continueOnFail_setting (ctx_settings ctx)
      in case resolve_credentials (getCredentials ctx) of
           Inl e \<Rightarrow> (Inl e, w)
         | Inr c \<Rightarrow>
             (let w1 = new_Pool (execute_pool_config (ctx_settings ctx) c) w;
                  (res, w2) = item_loop drv parse (params ctx) cof 0 todo [] w1
              in (res, pool_end w2)))"

section \<open>The connectivity self-test\<close>











section \<open>Listing the tables\<close>

text \<open>An entry of the list \<^verbatim>\<open>getTables\<close> returns for the table picker.\<close>

record option_entry =
  opt_name :: jsval
  opt_value :: jsval
  opt_description :: string

definition tables_query :: string where
  "tables_query =
     [CHR 0x0A] @ ''          SELECT table_name '' @
     [CHR 0x0A] @ ''          FROM information_schema.tables '' @
     [CHR 0x0A] @ ''          WHERE table_schema = 'public' '' @
     [CHR 0x0A] @ ''          AND table_type = 'BASE TABLE'' @ [CHR 0x27] @
     [CHR 0x0A] @ ''          ORDER BY table_name'' @
     [CHR 0x0A] @ ''        ''"

definition table_name_of :: "row \<Rightarrow> jsval" where
  "table_name_of r = (case map_of r ''table_name'' of Some v \<Rightarrow> v | None \<Rightarrow> JUndefined)"

definition loadOptions_pool_config :: "settings option \<Rightarrow> credentials \<Rightarrow> pool_config" where
  "loadOptions_pool_config st c =
     \<lparr>cfg_host = host c, cfg_port = port_or_default (port c), cfg_database = database c,
      cfg_user = user c, cfg_password = password c,
      cfg_ssl = ssl_config (ssl_setting st c), cfg_max = 1,
      cfg_idleTimeoutMillis = None,
      cfg_connectionTimeoutMillis = connectionTimeout_setting st 5000\<rparr>"

definition no_credentials_entry :: option_entry where
  "no_credentials_entry =
     \<lparr>opt_name = JStr ''No credentials selected'', opt_value = JStr [],
      opt_description = ''Please select PostgreSQL credentials first''\<rparr>"

definition getTables ::
  "driver \<Rightarrow> settings option \<Rightarrow> js_error + credentials option \<Rightarrow> world
     \<Rightarrow> option_entry list \<times> world" where
  "getTables drv st g w =
     (case g of
        Inl e \<Rightarrow>
          ([\<lparr>opt_name = JStr ''Error: Credentials required'', opt_value = JStr [],
             opt_description = err_message e\<rparr>], w)
      | Inr None \<Rightarrow> ([no_credentials_entry], w)
      | Inr (Some c) \<Rightarrow>
          if host c = [] then ([no_credentials_entry], w)
          else
            (case pool_query drv (tables_query, []) (new_Pool (loadOptions_pool_config st c) w) of
               (Inr r, w1) \<Rightarrow>
                 (map (\<lambda>row. \<lparr>opt_name = table_name_of row, opt_value = table_name_of row,
                               opt_description = ''Table: '' @ to_string (table_name_of row)\<rparr>)
                      (rows r),
                  pool_end w1)
             | (Inl e, w1) \<Rightarrow>
                 ([\<lparr>opt_name = JStr ''Error loading tables - check credentials'',
                    opt_value = JStr [], opt_description = err_message e\<rparr>],
                  pool_end w1)))"

section \<open>Example inputs\<close>

text \<open>
  Concrete parameters, credentials, drivers and worlds at which the properties below are
  evaluated.
\<close>

definition example_update :: node_params where
  "example_update =
     \<lparr>operation = ''update'', query = [], queryParams = [], table = ''users'',
      columns = ''*'', whereClause = ''id = $2'', whereParams = ''123'', returnAll = True,
      limit = JNum 50, orderBy = [], returnFields = ''*'',
      columnsMap = (\<lambda>i. MapValue [(''status'', JStr ''inactive'')])\<rparr>"

definition parse_null :: json_parser where
  "parse_null = (\<lambda>s. Inr None)"

definition example_delete :: node_params where
  "example_delete = example_update\<lparr>operation := ''delete'', whereClause := []\<rparr>"

definition example_insert_blank :: node_params where
  "example_insert_blank =
     example_update\<lparr>operation := ''insert'',
       columnsMap := (\<lambda>i. MapValue [(''name'', JStr []), (''email'', JNull)])\<rparr>"

definition example_select :: node_params where
  "example_select =
     example_update\<lparr>operation := ''select'', table := ''t'', whereClause := ''id = $1'',
       whereParams := ''5'', returnAll := False, limit := JNum 10\<rparr>"

definition idle_driver :: driver where
  "idle_driver = (\<lambda>h. Inr \<lparr>rows = [], rowCount = JNum 0, command = JUndefined,
                              result_fields = None\<rparr>)"

definition empty_world :: world where
  "empty_world = \<lparr>created = [], sent = [], ended = 0\<rparr>"

definition example_credentials :: credentials where
  "example_credentials =
     \<lparr>host = ''db.local'', port = 0, database = ''app'', user = ''admin'',
      password = ''secret'', cred_ssl = None\<rparr>"

definition example_batch :: node_params where
  "example_batch =
     example_update\<lparr>operation := ''insert'',
       columnsMap := (\<lambda>i. if i = 1 then MapValue [(''name'', JStr [])]
                            else MapValue [(''name'', JStr ''Jane'')])\<rparr>"

definition example_context :: "bool option \<Rightarrow> node_context" where
  "example_context cof =
     \<lparr>ctx_settings = Some \<lparr>continueOnFail = cof, connectionTimeout = None, ssl = None\<rparr>,
      getCredentials = Inr (Some example_credentials),
      params = example_batch\<rparr>"

definition three_items :: "item list list option" where
  "three_items = Some [[[], [], []]]"

definition counting_driver :: driver where
  "counting_driver =
     (\<lambda>h. Inr \<lparr>rows = [[(''id'', JNum (of_nat (length h)))]], rowCount = JNum 1,
                  command = JUndefined, result_fields = None\<rparr>)"

definition jane_insert :: statement where
  "jane_insert = (''INSERT INTO users (\"name\") VALUES ($1) RETURNING *'', [JStr ''Jane''])"

definition example_pool :: pool_config where
  "example_pool =
     \<lparr>cfg_host = ''db.local'', cfg_port = 5432, cfg_database = ''app'', cfg_user = ''admin'',
      cfg_password = ''secret'', cfg_ssl = SslOff, cfg_max = 10,
      cfg_idleTimeoutMillis = Some 30000, cfg_connectionTimeoutMillis = 2000\<rparr>"

definition no_data_insert :: js_error where
  "no_data_insert = mk_error ''No data provided for insert. Please map at least one column.''"

definition query_context :: node_context where
  "query_context =
     \<lparr>ctx_settings = None, getCredentials = Inr (Some example_credentials),
      params = example_update\<lparr>operation := ''executeQuery'', query := ''SELECT 1''\<rparr>\<rparr>"

text \<open>The settings with \<^verbatim>\<open>continueOnFail\<close> written out as false, all else as it was.\<close>

definition explicit_fail_fast :: "settings option \<Rightarrow> settings" where
  "explicit_fail_fast st =
     (case st of
        None \<Rightarrow> \<lparr>continueOnFail = Some False, connectionTimeout = None, ssl = None\<rparr>
      | Some s \<Rightarrow> s\<lparr>continueOnFail := Some False\<rparr>)"

definition refused :: js_error where
  "refused = \<lparr>err_name = ''Error'', err_message = ''connect ECONNREFUSED 127.0.0.1:5432'',
              err_code = Some ''ECONNREFUSED''\<rparr>"

definition refusing_driver :: driver where
  "refusing_driver = (\<lambda>h. Inl refused)"



definition example_update_blank :: node_params where
  "example_update_blank =
     example_update\<lparr>whereClause := [], columnsMap := (\<lambda>i. MapValue [(''status'', JStr [])])\<rparr>"

definition example_update_spaced :: node_params where
  "example_update_spaced =
     example_update\<lparr>whereClause := ''id = $3 AND tag = $4 AND status = $5'',
       returnFields := [], whereParams := '' 123 ,, active'' @ [CHR 0x09, CHR 0x0A],
       columnsMap := (\<lambda>i. MapValue [(''status'', JStr ''inactive''), (''note'', JStr []),
                                      (''name'', JStr ''Bob'')])\<rparr>"

definition delete_context :: node_context where
  "delete_context =
     \<lparr>ctx_settings = None, getCredentials = Inr (Some example_credentials),
      params = example_delete\<rparr>"

section \<open>Auxiliary facts\<close>

text \<open>
  The pieces of a split join back to the string, there is one more piece than commas, no
  piece holds a comma, and a trimmed string neither starts nor ends with white space.
\<close>

lemma split_comma_nonempty: "split_comma s \<noteq> []"
  by (induction s) (auto split: list.splits)

lemma split_comma_length: "length (split_comma s) = Suc (count_list s CHR '','')"
  by (induction s) (auto split: list.splits simp: split_comma_nonempty)

lemma split_comma_join: "join '','' (split_comma s) = s"
proof (induction s)
  case Nil
  then show ?case by simp
next
  case (Cons c cs)
  obtain p ps where sp: "split_comma cs = p # ps"
    using split_comma_nonempty[of cs] by (cases "split_comma cs") auto
  show ?case
    using Cons.IH by (cases ps) (auto simp: sp)
qed

lemma split_comma_pieces: "p \<in> set (split_comma s) \<Longrightarrow> CHR '','' \<notin> set p"
  by (induction s arbitrary: p) (auto split: list.splits if_splits)

lemma trim_ends:
  "trim s \<noteq> [] \<Longrightarrow> \<not> is_space (hd (trim s)) \<and> \<not> is_space (last (trim s))"
proof -
  assume ne: "trim s \<noteq> []"
  let ?a = "dropWhile is_space s"
  let ?b = "dropWhile is_space (rev ?a)"
  have b: "?b \<noteq> []" using ne by (simp add: trim_def)
  then have lastok: "\<not> is_space (hd ?b)" by (rule hd_dropWhile)
  have "?a \<noteq> []"
  proof
    assume a: "?a = []"
    have "?b = []" unfolding a by simp
    with b show False by blast
  qed
  then have hda: "\<not> is_space (hd ?a)" by (rule hd_dropWhile)
  have "last ?b = last (rev ?a)"
    using b by (metis last_appendR takeWhile_dropWhile_id)
  also have "\<dots> = hd ?a" using \<open>?a \<noteq> []\<close> by (simp add: last_rev)
  finally have "\<not> is_space (last ?b)" using hda by simp
  then show ?thesis using lastok b by (simp add: trim_def hd_rev last_rev)
qed

lemma trim_idem: "trim (trim s) = trim s"
proof (cases "trim s = []")
  case True
  have "trim [] = []" by (simp add: trim_def)
  then show ?thesis by (simp add: True)
next
  case False
  then have e: "\<not> is_space (hd (trim s))" "\<not> is_space (last (trim s))"
    using trim_ends by auto
  have 1: "dropWhile is_space (trim s) = trim s"
    using False e(1) by (cases "trim s") auto
  have 2: "dropWhile is_space (rev (trim s)) = rev (trim s)"
    using False e(2) by (cases "rev (trim s)") (auto simp: last_rev hd_rev dest: arg_cong[where f=hd])
  show ?thesis
    unfolding trim_def[of "trim s"] 1 2 by simp
qed

lemma trim_split:
  "\<exists>l r. x = l @ trim x @ r \<and> (\<forall>c\<in>set l. is_space c) \<and> (\<forall>c\<in>set r. is_space c)"
proof -
  let ?a = "dropWhile is_space x"
  let ?l = "takeWhile is_space x"
  let ?r = "rev (takeWhile is_space (rev ?a))"
  have "?a = rev (dropWhile is_space (rev ?a)) @ rev (takeWhile is_space (rev ?a))"
    by (metis rev_append rev_rev_ident takeWhile_dropWhile_id)
  then have a: "?a = trim x @ ?r"
    by (simp only: trim_def)
  have "x = ?l @ ?a" by simp
  then have "x = ?l @ trim x @ ?r" using a by simp
  moreover have "\<forall>c\<in>set ?l. is_space c" by (auto dest: set_takeWhileD)
  moreover have "\<forall>c\<in>set ?r. is_space c" by (auto dest: set_takeWhileD)
  ultimately show ?thesis by blast
qed

lemma setClause_nth:
  "setClause cols
     = join '', '' (map (\<lambda>j. ''\"'' @ cols ! j @ ''\" = $'' @ string_of_nat (j + 1))
                         [0..<length cols])"
proof -
  have z: "zip cols [0..<length cols] = map (\<lambda>j. (cols ! j, j)) [0..<length cols]"
    by (rule nth_equalityI) simp_all
  show ?thesis
    unfolding setClause_def z by (simp only: map_map comp_def prod.case)
qed

lemma item_body_build_error:
  "build parse p i = Inl e \<Longrightarrow> item_body drv parse p i w = (Inl e, w)"
  by (simp add: item_body_def)

lemma fold_keep_none:
  "filter (\<lambda>(k, v). keep_value v) es = [] \<Longrightarrow>
   fold (\<lambda>(k, v) acc. if keep_value v then set_prop k v acc else acc) es acc = acc"
  by (induction es arbitrary: acc) (auto split: if_splits)

lemma filteredData_empty:
  "filter (\<lambda>(k, v). keep_value v) es = [] \<Longrightarrow> filteredData es = []"
  by (simp add: filteredData_def fold_keep_none)

lemma update_new_key:
  "k \<notin> fst ` set al \<Longrightarrow> AList.update k v al = al @ [(k, v)]"
  by (induction al) auto

lemma fold_keep_distinct:
  "distinct (map fst es) \<Longrightarrow> fst ` set acc \<inter> fst ` set es = {} \<Longrightarrow>
   fold (\<lambda>(k, v) acc. if keep_value v then set_prop k v acc else acc) es acc
     = acc @ filter (\<lambda>(k, v). keep_value v \<and> k \<noteq> ''__proto__'') es"
proof (induction es arbitrary: acc)
  case Nil
  then show ?case by simp
next
  case (Cons kv es)
  obtain k v where kv: "kv = (k, v)" by (cases kv)
  have d: "distinct (map fst es)" and knew: "k \<notin> fst ` set es" and kacc: "k \<notin> fst ` set acc"
    using Cons.prems by (auto simp: kv)
  show ?case
  proof (cases "keep_value v \<and> k \<noteq> ''__proto__''")
    case True
    have step: "set_prop k v acc = acc @ [(k, v)]"
      using True kacc by (simp add: set_prop_def update_new_key)
    have disj: "fst ` set (acc @ [(k, v)]) \<inter> fst ` set es = {}"
      using Cons.prems knew by (auto simp: kv)
    show ?thesis
      using True Cons.IH[OF d disj] by (simp add: kv step)
  next
    case False
    have disj: "fst ` set acc \<inter> fst ` set es = {}"
      using Cons.prems by (auto simp: kv)
    show ?thesis
      using False Cons.IH[OF d disj] by (auto simp: kv set_prop_def)
  qed
qed

lemma filteredData_distinct:
  "distinct (map fst es) \<Longrightarrow>
   filteredData es = filter (\<lambda>(k, v). keep_value v \<and> k \<noteq> ''__proto__'') es"
  using fold_keep_distinct[of es "[]"] by (simp add: filteredData_def)

section \<open>The statement builder\<close>

text \<open>
  C1. An update or a delete whose \<^verbatim>\<open>where\<close> parameter is empty fails while the
  statement is built, with the error that names the missing WHERE clause, and the item
  leaves the world as it found it: no query reaches the driver.
\<close>
theorem C1_mandatory_where:
  assumes "operation p = ''update'' \<or> operation p = ''delete''"
      and "whereClause p = []"
  shows "build parse p i = Inl (mk_error
           (if operation p = ''update''
            then ''WHERE clause is required for UPDATE operation to prevent accidental updates''
            else ''WHERE clause is required for DELETE operation to prevent accidental deletion''))
         \<and> item_body drv parse p i w = (Inl (mk_error
           (if operation p = ''update''
            then ''WHERE clause is required for UPDATE operation to prevent accidental updates''
            else ''WHERE clause is required for DELETE operation to prevent accidental deletion'')),
           w)"
proof -
  have b: "build parse p i = Inl (mk_error
           (if operation p = ''update''
            then ''WHERE clause is required for UPDATE operation to prevent accidental updates''
            else ''WHERE clause is required for DELETE operation to prevent accidental deletion''))"
    using assms by (auto simp: build_def build_update_def build_delete_def)
  show ?thesis using b item_body_build_error[OF b] by simp
qed

theorem C1_mandatory_where_witness:
  "operation example_delete = ''delete'' \<and> whereClause example_delete = []
   \<and> item_body idle_driver parse_null example_delete 0 empty_world
       = (Inl (mk_error
            ''WHERE clause is required for DELETE operation to prevent accidental deletion''),
          empty_world)"
  using C1_mandatory_where[of example_delete parse_null 0 idle_driver empty_world]
  by (simp add: example_delete_def example_update_def)

text \<open>
  C2, as stated, fails: an update whose \<^verbatim>\<open>where\<close> is empty and whose map holds only a
  blank value fails with the error that names the missing WHERE clause, not with the
  error that no data was provided.
\<close>
theorem C2_no_data_counterexample:
  "operation example_update_blank = ''update''
   \<and> data_entries parse_null (columnsMap example_update_blank 0) = Inr [(''status'', JStr [])]
   \<and> filter (\<lambda>(k, v). v \<noteq> JNull \<and> v \<noteq> JUndefined \<and> v \<noteq> JStr []) [(''status'', JStr [])] = []
   \<and> build parse_null example_update_blank 0
       = Inl (mk_error
           ''WHERE clause is required for UPDATE operation to prevent accidental updates'')
   \<and> build parse_null example_update_blank 0
       \<noteq> Inl (mk_error ''No data provided for update. Please map at least one column.'')"
  by (simp add: example_update_blank_def example_update_def data_entries_def build_def
                build_update_def mk_error_def)

text \<open>
  C2, amended. An insert, or an update whose \<^verbatim>\<open>where\<close> is not empty, whose
  column-value map has no entry left once the entries with value \<^verbatim>\<open>null\<close>,
  \<^verbatim>\<open>undefined\<close> or the empty string are dropped fails while the statement is built
  with the error that no data was provided; an update whose \<^verbatim>\<open>where\<close> is empty fails
  on its WHERE check, which comes first. In every case the item performs no I/O.
\<close>
theorem C2_no_data:
  assumes "operation p = ''insert'' \<or> operation p = ''update''"
      and "data_entries parse (columnsMap p i) = Inr es"
      and "filter (\<lambda>(k, v). v \<noteq> JNull \<and> v \<noteq> JUndefined \<and> v \<noteq> JStr []) es = []"
  shows "build parse p i = Inl (mk_error
           (if operation p = ''insert''
            then ''No data provided for insert. Please map at least one column.''
            else if whereClause p = []
            then ''WHERE clause is required for UPDATE operation to prevent accidental updates''
            else ''No data provided for update. Please map at least one column.''))
         \<and> item_body drv parse p i w = (Inl (mk_error
           (if operation p = ''insert''
            then ''No data provided for insert. Please map at least one column.''
            else if whereClause p = []
            then ''WHERE clause is required for UPDATE operation to prevent accidental updates''
            else ''No data provided for update. Please map at least one column.'')),
           w)"
proof -
  have same: "(\<lambda>(k, v). v \<noteq> JNull \<and> v \<noteq> JUndefined \<and> v \<noteq> JStr [])
                = (\<lambda>(k :: string, v). keep_value v)"
    by (auto simp: keep_value_def fun_eq_iff)
  have fd: "filteredData es = []"
    using assms(3) unfolding same by (rule filteredData_empty)
  have b: "build parse p i = Inl (mk_error
           (if operation p = ''insert''
            then ''No data provided for insert. Please map at least one column.''
            else if whereClause p = []
            then ''WHERE clause is required for UPDATE operation to prevent accidental updates''
            else ''No data provided for update. Please map at least one column.''))"
    using assms(1,2) fd by (auto simp: build_def build_insert_def build_update_def)
  show ?thesis using b item_body_build_error[OF b] by simp
qed

theorem C2_no_data_witness:
  "operation example_insert_blank = ''insert''
   \<and> data_entries parse_null (columnsMap example_insert_blank 0)
       = Inr [(''name'', JStr []), (''email'', JNull)]
   \<and> item_body idle_driver parse_null example_insert_blank 0 empty_world
       = (Inl (mk_error ''No data provided for insert. Please map at least one column.''),
          empty_world)
   \<and> operation (example_update_blank\<lparr>whereClause := ''id = $1''\<rparr>) = ''update''
   \<and> item_body idle_driver parse_null (example_update_blank\<lparr>whereClause := ''id = $1''\<rparr>) 0
         empty_world
       = (Inl (mk_error ''No data provided for update. Please map at least one column.''),
          empty_world)"
  using C2_no_data[of example_insert_blank parse_null 0
                      "[(''name'', JStr []), (''email'', JNull)]" idle_driver empty_world]
        C2_no_data[of "example_update_blank\<lparr>whereClause := ''id = $1''\<rparr>" parse_null 0
                      "[(''status'', JStr [])]" idle_driver empty_world]
  by (simp add: example_insert_blank_def example_update_blank_def example_update_def
                data_entries_def)

text \<open>
  C3, as stated, fails: with \<^verbatim>\<open>returnAll\<close> false, a limit of 0 builds a statement
  without a LIMIT clause, and a limit of -1 builds a statement with \<^verbatim>\<open>LIMIT -1\<close>;
  neither is rejected.
\<close>
theorem C3_limit_counterexample:
  "returnAll (example_select\<lparr>limit := JNum 0\<rparr>) = False
   \<and> build parse_null (example_select\<lparr>limit := JNum 0\<rparr>) 0
       = Inr (''SELECT * FROM t WHERE id = $1'', [JStr ''5''])
   \<and> build parse_null (example_select\<lparr>limit := JNum (- 1)\<rparr>) 0
       = Inr (''SELECT * FROM t WHERE id = $1 LIMIT -1'', [JStr ''5''])"
  by code_simp

text \<open>
  C3, amended. For a select with \<^verbatim>\<open>returnAll\<close> false, building never fails, and
  \<^verbatim>\<open>LIMIT n\<close> ends the statement exactly when the limit is truthy (for a number: not
  zero); the limit is written into the text as JavaScript prints it, unchecked. The
  limits are the values of the model: an integer from \<^verbatim>\<open>-2^53\<close> to \<^verbatim>\<open>2^53 - 1\<close>, a
  string, a boolean, \<^verbatim>\<open>null\<close> or \<^verbatim>\<open>undefined\<close>.
\<close>
theorem C3_limit_unchecked:
  assumes "operation p = ''select''" and "\<not> returnAll p"
  shows "build parse p i =
           Inr (''SELECT '' @ or_star (columns p) @ '' FROM '' @ table p
                  @ (if whereClause p \<noteq> [] then '' WHERE '' @ whereClause p else [])
                  @ (if orderBy p \<noteq> [] then '' ORDER BY '' @ orderBy p else [])
                  @ (if truthy (limit p) then '' LIMIT '' @ to_string (limit p) else []),
                if whereClause p \<noteq> [] \<and> whereParams p \<noteq> []
                then split_params (whereParams p) else [])"
  using assms by (simp add: build_def build_select_def Let_def)

theorem C3_limit_unchecked_witness:
  "operation example_select = ''select'' \<and> \<not> returnAll example_select
   \<and> build parse_null example_select 0
       = Inr (''SELECT * FROM t WHERE id = $1 LIMIT 10'', [JStr ''5''])
   \<and> build parse_null (example_select\<lparr>limit := JNum 9007199254740991\<rparr>) 0
       = Inr (''SELECT * FROM t WHERE id = $1 LIMIT 9007199254740991'', [JStr ''5''])
   \<and> build parse_null (example_select\<lparr>limit := JStr ''abc''\<rparr>) 0
       = Inr (''SELECT * FROM t WHERE id = $1 LIMIT abc'', [JStr ''5''])
   \<and> build parse_null (example_select\<lparr>limit := JStr []\<rparr>) 0
       = Inr (''SELECT * FROM t WHERE id = $1'', [JStr ''5''])"
proof -
  have s: "number_to_string 10 = ''10''" by code_simp
  have b: "number_to_string 9007199254740991 = ''9007199254740991''"
    by (simp add: number_to_string_def string_of_nat.simps digit_char_def)
  have t: "split_params ''5'' = [JStr ''5'']" by code_simp
  show ?thesis
    using C3_limit_unchecked[of example_select parse_null 0]
          C3_limit_unchecked[of "example_select\<lparr>limit := JNum 9007199254740991\<rparr>" parse_null 0]
          C3_limit_unchecked[of "example_select\<lparr>limit := JStr ''abc''\<rparr>" parse_null 0]
          C3_limit_unchecked[of "example_select\<lparr>limit := JStr []\<rparr>" parse_null 0]
    by (simp add: example_select_def example_update_def or_star_def s b t)
qed

text \<open>
  C6. The update of table \<^verbatim>\<open>users\<close> with map \<^verbatim>\<open>{status: "inactive"}\<close>, where
  \<^verbatim>\<open>id = $2\<close> and where-parameters \<^verbatim>\<open>123\<close> builds the text
  \<^verbatim>\<open>UPDATE users SET "status" = $1 WHERE id = $2 RETURNING *\<close> with parameters
  \<^verbatim>\<open>["inactive", "123"]\<close>. A second update, with a blank column and with commas
  and white space in its where-parameters, shows the splitting and trimming. In general
  the parameters of an update are the values of the columns of its SET clause, in the
  order of the map, followed by the pieces of the where-parameters between the commas,
  trimmed (none for an empty string). The pieces are the only comma-free strings that
  joined by commas give the where-parameters back, and a trimmed piece is the piece
  without the white space at its two ends.
\<close>
theorem C6_update_statement:
  "build parse_null example_update 0
     = Inr (''UPDATE users SET \"status\" = $1 WHERE id = $2 RETURNING *'',
            [JStr ''inactive'', JStr ''123''])
   \<and> build parse_null example_update_spaced 0
     = Inr (''UPDATE users SET \"status\" = $1, \"name\" = $2 WHERE id = $3 AND tag = $4 AND status = $5 RETURNING *'',
            [JStr ''inactive'', JStr ''Bob'', JStr ''123'', JStr [], JStr ''active''])
   \<and> (\<forall>parse p i es kept.
         operation p = ''update'' \<and> whereClause p \<noteq> []
         \<and> data_entries parse (columnsMap p i) = Inr es \<and> distinct (map fst es)
         \<and> kept = filter (\<lambda>(k, v). v \<noteq> JStr [] \<and> v \<noteq> JNull \<and> v \<noteq> JUndefined
                                    \<and> k \<noteq> ''__proto__'') es
         \<and> kept \<noteq> []
         \<longrightarrow> build parse p i
               = Inr (''UPDATE '' @ table p @ '' SET ''
                        @ join '', '' (map (\<lambda>j. ''\"'' @ fst (kept ! j) @ ''\" = $''
                                                   @ string_of_nat (j + 1))
                                          [0..<length kept])
                        @ '' WHERE '' @ whereClause p
                        @ '' RETURNING '' @ or_star (returnFields p),
                      map snd kept
                        @ (if whereParams p = [] then []
                           else map (\<lambda>x. JStr (trim x)) (split_comma (whereParams p)))))
   \<and> (\<forall>s. split_comma s \<noteq> [] \<and> join '','' (split_comma s) = s
            \<and> (\<forall>x\<in>set (split_comma s). CHR '','' \<notin> set x))
   \<and> (\<forall>x. (\<exists>l r. x = l @ trim x @ r \<and> (\<forall>c\<in>set l. is_space c) \<and> (\<forall>c\<in>set r. is_space c))
            \<and> (trim x = [] \<or> (\<not> is_space (hd (trim x)) \<and> \<not> is_space (last (trim x)))))"
proof -
  have ex1: "build parse_null example_update 0
     = Inr (''UPDATE users SET \"status\" = $1 WHERE id = $2 RETURNING *'',
            [JStr ''inactive'', JStr ''123''])"
    by code_simp
  have ex2: "build parse_null example_update_spaced 0
     = Inr (''UPDATE users SET \"status\" = $1, \"name\" = $2 WHERE id = $3 AND tag = $4 AND status = $5 RETURNING *'',
            [JStr ''inactive'', JStr ''Bob'', JStr ''123'', JStr [], JStr ''active''])"
    by code_simp
  have gen: "build parse p i
               = Inr (''UPDATE '' @ table p @ '' SET ''
                        @ join '', '' (map (\<lambda>j. ''\"'' @ fst (kept ! j) @ ''\" = $''
                                                   @ string_of_nat (j + 1))
                                          [0..<length kept])
                        @ '' WHERE '' @ whereClause p
                        @ '' RETURNING '' @ or_star (returnFields p),
                      map snd kept
                        @ (if whereParams p = [] then []
                           else map (\<lambda>x. JStr (trim x)) (split_comma (whereParams p))))"
    if h: "operation p = ''update''" "whereClause p \<noteq> []"
          "data_entries parse (columnsMap p i) = Inr es" "distinct (map fst es)"
          "kept = filter (\<lambda>(k, v). v \<noteq> JStr [] \<and> v \<noteq> JNull \<and> v \<noteq> JUndefined
                                    \<and> k \<noteq> ''__proto__'') es"
          "kept \<noteq> []"
    for parse p i es kept
  proof -
    have same: "(\<lambda>(k, v). v \<noteq> JStr [] \<and> v \<noteq> JNull \<and> v \<noteq> JUndefined \<and> k \<noteq> ''__proto__'')
                  = (\<lambda>(k :: string, v). keep_value v \<and> k \<noteq> ''__proto__'')"
      by (auto simp: keep_value_def fun_eq_iff)
    have fd: "filteredData es = kept"
      using filteredData_distinct[OF h(4)] unfolding h(5) same .
    have sc: "setClause (map fst kept)
                = join '', '' (map (\<lambda>j. ''\"'' @ fst (kept ! j) @ ''\" = $''
                                           @ string_of_nat (j + 1))
                                  [0..<length kept])"
    proof -
      have "map (\<lambda>j. ''\"'' @ map fst kept ! j @ ''\" = $'' @ string_of_nat (j + 1))
                [0..<length (map fst kept)]
              = map (\<lambda>j. ''\"'' @ fst (kept ! j) @ ''\" = $'' @ string_of_nat (j + 1))
                    [0..<length kept]"
        by (rule map_cong) simp_all
      then show ?thesis unfolding setClause_nth by (rule arg_cong)
    qed
    show ?thesis
      using h(1,2,3,6) unfolding build_def build_update_def
      by (simp add: fd sc split_params_def Let_def)
  qed
  have sp: "split_comma s \<noteq> [] \<and> join '','' (split_comma s) = s
            \<and> (\<forall>x\<in>set (split_comma s). CHR '','' \<notin> set x)" for s
    using split_comma_nonempty split_comma_join split_comma_pieces by blast
  have tr: "(\<exists>l r. x = l @ trim x @ r \<and> (\<forall>c\<in>set l. is_space c) \<and> (\<forall>c\<in>set r. is_space c))
            \<and> (trim x = [] \<or> (\<not> is_space (hd (trim x)) \<and> \<not> is_space (last (trim x))))" for x
    using trim_split[of x] trim_ends[of x] by blast
  show ?thesis
    apply (intro conjI allI impI)
    subgoal by (rule ex1)
    subgoal by (rule ex2)
    subgoal for parse p i es kept using gen[of p parse i es kept] by blast
    subgoal for s using sp[of s] by blast
    subgoal for s using sp[of s] by blast
    subgoal for s using sp[of s] by blast
    subgoal for x using tr[of x] by blast
    subgoal for x using tr[of x] by blast
    done
qed

theorem C6_update_statement_witness:
  "operation example_update_spaced = ''update'' \<and> whereClause example_update_spaced \<noteq> []
   \<and> data_entries parse_null (columnsMap example_update_spaced 0)
       = Inr [(''status'', JStr ''inactive''), (''note'', JStr []), (''name'', JStr ''Bob'')]
   \<and> distinct (map fst [(''status'', JStr ''inactive''), (''note'', JStr []),
                         (''name'', JStr ''Bob'')])
   \<and> snd (projr (build parse_null example_update_spaced 0))
       = [JStr ''inactive'', JStr ''Bob''] @ map (\<lambda>x. JStr (trim x))
           (split_comma ('' 123 ,, active'' @ [CHR 0x09, CHR 0x0A]))
   \<and> map (\<lambda>x. JStr (trim x)) (split_comma ('' 123 ,, active'' @ [CHR 0x09, CHR 0x0A]))
       = [JStr ''123'', JStr [], JStr ''active'']"
proof -
  let ?es = "[(''status'', JStr ''inactive''), (''note'', JStr []), (''name'', JStr ''Bob'')]"
  have h1: "operation example_update_spaced = ''update''"
    and h2: "whereClause example_update_spaced \<noteq> []"
    and h3: "data_entries parse_null (columnsMap example_update_spaced 0) = Inr ?es"
    and h4: "distinct (map fst ?es)"
    and wp: "whereParams example_update_spaced = '' 123 ,, active'' @ [CHR 0x09, CHR 0x0A]"
    by (simp_all add: example_update_spaced_def example_update_def data_entries_def)
  have k: "filter (\<lambda>(k, v). v \<noteq> JStr [] \<and> v \<noteq> JNull \<and> v \<noteq> JUndefined \<and> k \<noteq> ''__proto__'') ?es
             = [(''status'', JStr ''inactive''), (''name'', JStr ''Bob'')]"
    by simp
  have t: "map (\<lambda>x. JStr (trim x)) (split_comma ('' 123 ,, active'' @ [CHR 0x09, CHR 0x0A]))
       = [JStr ''123'', JStr [], JStr ''active'']"
    by code_simp
  have "build parse_null example_update_spaced 0
          = Inr (''UPDATE '' @ table example_update_spaced @ '' SET ''
                   @ join '', '' (map (\<lambda>j. ''\"'' @ fst ([(''status'', JStr ''inactive''), (''name'', JStr ''Bob'')] ! j) @ ''\" = $''
                                              @ string_of_nat (j + 1))
                                     [0..<length [(''status'', JStr ''inactive''), (''name'', JStr ''Bob'')]])
                   @ '' WHERE '' @ whereClause example_update_spaced
                   @ '' RETURNING '' @ or_star (returnFields example_update_spaced),
                 map snd [(''status'', JStr ''inactive''), (''name'', JStr ''Bob'')]
                   @ (if whereParams example_update_spaced = [] then []
                      else map (\<lambda>x. JStr (trim x)) (split_comma (whereParams example_update_spaced))))"
    by (rule C6_update_statement[THEN conjunct2, THEN conjunct2, THEN conjunct1, rule_format,
            of example_update_spaced parse_null 0 ?es
               "[(''status'', JStr ''inactive''), (''name'', JStr ''Bob'')]"])
       (intro conjI h1 h2 h3 h4 k[symmetric], simp)
  then have "snd (projr (build parse_null example_update_spaced 0))
       = [JStr ''inactive'', JStr ''Bob''] @ map (\<lambda>x. JStr (trim x))
           (split_comma ('' 123 ,, active'' @ [CHR 0x09, CHR 0x0A]))"
    by (simp add: wp)
  then show ?thesis using h1 h2 h3 h4 t by blast
qed

section \<open>The batch processor\<close>

lemma item_body_keeps:
  "ended (snd (item_body drv parse p i w)) = ended w"
  "created (snd (item_body drv parse p i w)) = created w"
  by (auto simp: item_body_def pool_query_def Let_def split: sum.splits prod.splits)

lemma item_loop_keeps:
  "ended (snd (item_loop drv parse p cof i xs rs w)) = ended w
   \<and> created (snd (item_loop drv parse p cof i xs rs w)) = created w"
proof (induction xs arbitrary: i rs w)
  case Nil
  then show ?case by simp
next
  case (Cons x xs)
  obtain r w' where b: "item_body drv parse p i w = (r, w')" by (cases "item_body drv parse p i w")
  have k: "ended w' = ended w" "created w' = created w"
    using item_body_keeps[of drv parse p i w] by (simp_all add: b)
  show ?case
    using Cons.IH k by (cases r; cases cof) (simp_all add: b)
qed

lemma item_loop_append:
  "item_loop drv parse p cof i (xs @ ys) rs w =
     (case item_loop drv parse p cof i xs rs w of
        (Inl e, w') \<Rightarrow> (Inl e, w')
      | (Inr rs', w') \<Rightarrow> item_loop drv parse p cof (i + length xs) ys rs' w')"
proof (induction xs arbitrary: i rs w)
  case Nil
  then show ?case by simp
next
  case (Cons x xs)
  obtain r w' where b: "item_body drv parse p i w = (r, w')" by (cases "item_body drv parse p i w")
  show ?case
    using Cons.IH by (cases r; cases cof) (simp_all add: b split: prod.splits sum.splits)
qed

text \<open>Under continue-on-fail the loop never throws and pushes one outcome for each item.\<close>

lemma item_loop_continue:
  "\<exists>rs' w'. item_loop drv parse p True i xs rs w = (Inr rs', w')
             \<and> length rs' = length rs + length xs"
proof (induction xs arbitrary: i rs w)
  case Nil
  then show ?case by simp
next
  case (Cons x xs)
  obtain r w1 where b: "item_body drv parse p i w = (r, w1)" by (cases "item_body drv parse p i w")
  show ?case
  proof (cases r)
    case (Inl e)
    then show ?thesis
      using Cons.IH[of "Suc i" "rs @ [error_record e]" w1] by (auto simp: b)
  next
    case (Inr j)
    then show ?thesis
      using Cons.IH[of "Suc i" "rs @ [j]" w1] by (auto simp: b)
  qed
qed

lemma item_loop_abort:
  assumes "item_loop drv parse p False 0 pre [] w = (Inr rs, w1)"
      and "item_body drv parse p (length pre) w1 = (Inl e, w2)"
  shows "item_loop drv parse p False 0 (pre @ x # post) [] w = (Inl e, w2)"
  using assms by (simp add: item_loop_append)

lemma execute_abort:
  assumes "resolve_credentials (getCredentials ctx) = Inr c"
      and "\<not> continueOnFail_setting (ctx_settings ctx)"
      and "itemsToProcess (input_items main) = pre @ x # post"
      and "item_loop drv parse (params ctx) False 0 pre []
             (new_Pool (execute_pool_config (ctx_settings ctx) c) w) = (Inr rs, w1)"
      and "item_body drv parse (params ctx) (length pre) w1 = (Inl e, w2)"
  shows "execute drv parse ctx main w = (Inl e, pool_end w2)"
  using assms(1,2,3) item_loop_abort[OF assms(4,5), of x post]
  by (simp add: execute_def Let_def)

lemma execute_ended:
  assumes "resolve_credentials (getCredentials ctx) = Inr c"
  shows "ended (snd (execute drv parse ctx main w)) = ended w + 1"
proof -
  let ?w1 = "new_Pool (execute_pool_config (ctx_settings ctx) c) w"
  obtain res w2 where l: "item_loop drv parse (params ctx)
      (continueOnFail_setting (ctx_settings ctx)) 0 (itemsToProcess (input_items main)) [] ?w1
      = (res, w2)"
    by (cases "item_loop drv parse (params ctx)
      (continueOnFail_setting (ctx_settings ctx)) 0 (itemsToProcess (input_items main)) [] ?w1")
  have "ended w2 = ended ?w1"
    using item_loop_keeps[of drv parse "params ctx" "continueOnFail_setting (ctx_settings ctx)" 0
            "itemsToProcess (input_items main)" "[]" ?w1]
    by (simp add: l)
  then have e: "ended w2 = ended w"
    by (simp add: new_Pool_def)
  have "execute drv parse ctx main w = (res, pool_end w2)"
    using assms l by (simp add: execute_def Let_def)
  then show ?thesis
    using e by (simp add: pool_end_def)
qed

text \<open>
  C4. A batch of three items under continue-on-fail, in which the first and the third
  item succeed and the second fails (while its statement is built or in the driver):
  the run returns three outcomes in input order; the second is the failure record with
  the error's message; the first and the third are the results of their own items, each
  computed in the world its predecessors left. A failure of the second item while
  building leaves that world untouched.
\<close>
theorem C4_continue_on_fail:
  assumes "resolve_credentials (getCredentials ctx) = Inr c"
      and "continueOnFail_setting (ctx_settings ctx)"
      and "itemsToProcess (input_items main) = [x1, x2, x3]"
      and "item_body drv parse (params ctx) 0
             (new_Pool (execute_pool_config (ctx_settings ctx) c) w) = (Inr j1, w1)"
      and "item_body drv parse (params ctx) 1 w1 = (Inl e, w2)"
      and "item_body drv parse (params ctx) 2 w2 = (Inr j3, w3)"
  shows "execute drv parse ctx main w
           = (Inr [j1, ErrorOut True (err_message e) (error_toString e), j3], pool_end w3)
         \<and> length (projr (fst (execute drv parse ctx main w))) = 3
         \<and> (build parse (params ctx) 1 = Inl e \<longrightarrow> w2 = w1)"
proof -
  have run: "execute drv parse ctx main w
           = (Inr [j1, ErrorOut True (err_message e) (error_toString e), j3], pool_end w3)"
    using assms by (simp add: execute_def Let_def error_record_def numeral_2_eq_2)
  have same: "w2 = w1" if "build parse (params ctx) 1 = Inl e"
    using assms(5) item_body_build_error[OF that, of drv w1] by simp
  show ?thesis using run same by simp
qed

theorem C4_continue_on_fail_witness:
  "continueOnFail_setting (ctx_settings (example_context (Some True)))
   \<and> itemsToProcess (input_items three_items) = [[], [], []]
   \<and> build parse_null (params (example_context (Some True))) 1 = Inl no_data_insert
   \<and> fst (execute counting_driver parse_null (example_context (Some True)) three_items empty_world)
       = Inr [InsertOut (Some [(''id'', JNum 1)]) (JNum 1),
              ErrorOut True ''No data provided for insert. Please map at least one column.''
                ''Error: No data provided for insert. Please map at least one column.'',
              InsertOut (Some [(''id'', JNum 2)]) (JNum 1)]"
proof -
  let ?ctx = "example_context (Some True)"
  let ?w0 = "new_Pool (execute_pool_config (ctx_settings ?ctx) example_credentials) empty_world"
  let ?w1 = "\<lparr>created = [example_pool], sent = [jane_insert], ended = 0\<rparr>"
  let ?w3 = "\<lparr>created = [example_pool], sent = [jane_insert, jane_insert], ended = 0\<rparr>"
  have h1: "resolve_credentials (getCredentials ?ctx) = Inr example_credentials" by code_simp
  have h2: "continueOnFail_setting (ctx_settings ?ctx)" by code_simp
  have h3: "itemsToProcess (input_items three_items) = [[], [], []]" by code_simp
  have h4: "item_body counting_driver parse_null (params ?ctx) 0 ?w0
              = (Inr (InsertOut (Some [(''id'', JNum 1)]) (JNum 1)), ?w1)" by code_simp
  have h5: "item_body counting_driver parse_null (params ?ctx) 1 ?w1 = (Inl no_data_insert, ?w1)"
    by code_simp
  have h6: "item_body counting_driver parse_null (params ?ctx) 2 ?w1
              = (Inr (InsertOut (Some [(''id'', JNum 2)]) (JNum 1)), ?w3)" by code_simp
  have b: "build parse_null (params ?ctx) 1 = Inl no_data_insert" by code_simp
  have m: "err_message no_data_insert
             = ''No data provided for insert. Please map at least one column.''"
          "error_toString no_data_insert
             = ''Error: No data provided for insert. Please map at least one column.''"
    by code_simp+
  show ?thesis
    using C4_continue_on_fail[OF h1 h2 h3 h4 h5 h6] h2 h3 b by (simp add: m)
qed

text \<open>
  C5. Without continue-on-fail, when the items before some item succeed and that item
  fails, the run throws that item's error to the caller instead of returning outcomes;
  the queries sent are those up to the failing item, whatever items follow; and
  \<^verbatim>\<open>pool.end\<close> has been called exactly once.
\<close>
theorem C5_fail_fast:
  assumes "resolve_credentials (getCredentials ctx) = Inr c"
      and "\<not> continueOnFail_setting (ctx_settings ctx)"
      and "itemsToProcess (input_items main) = pre @ x # post"
      and "item_loop drv parse (params ctx) False 0 pre []
             (new_Pool (execute_pool_config (ctx_settings ctx) c) w) = (Inr rs, w1)"
      and "item_body drv parse (params ctx) (length pre) w1 = (Inl e, w2)"
  shows "execute drv parse ctx main w = (Inl e, pool_end w2)
         \<and> sent (snd (execute drv parse ctx main w)) = sent w2
         \<and> ended (snd (execute drv parse ctx main w)) = ended w + 1"
proof -
  have run: "execute drv parse ctx main w = (Inl e, pool_end w2)"
    using assms by (rule execute_abort)
  have once: "ended (snd (execute drv parse ctx main w)) = ended w + 1"
    using assms(1) by (rule execute_ended)
  show ?thesis using run once by (simp add: pool_end_def)
qed

theorem C5_fail_fast_witness:
  "\<not> continueOnFail_setting (ctx_settings (example_context (Some False)))
   \<and> itemsToProcess (input_items three_items) = [[]] @ [] # [[]]
   \<and> execute counting_driver parse_null (example_context (Some False)) three_items empty_world
       = (Inl no_data_insert, \<lparr>created = [example_pool], sent = [jane_insert], ended = 1\<rparr>)"
proof -
  let ?ctx = "example_context (Some False)"
  let ?w0 = "new_Pool (execute_pool_config (ctx_settings ?ctx) example_credentials) empty_world"
  let ?w1 = "\<lparr>created = [example_pool], sent = [jane_insert], ended = 0\<rparr>"
  have h1: "resolve_credentials (getCredentials ?ctx) = Inr example_credentials" by code_simp
  have h2: "\<not> continueOnFail_setting (ctx_settings ?ctx)" by code_simp
  have h3: "itemsToProcess (input_items three_items) = [[]] @ [] # [[]]" by code_simp
  have h4: "item_loop counting_driver parse_null (params ?ctx) False 0 [[] :: item] [] ?w0
              = (Inr [InsertOut (Some [(''id'', JNum 1)]) (JNum 1)], ?w1)" by code_simp
  have h5: "item_body counting_driver parse_null (params ?ctx) (length [[] :: item]) ?w1
              = (Inl no_data_insert, ?w1)"
    by code_simp
  have e: "pool_end ?w1 = \<lparr>created = [example_pool], sent = [jane_insert], ended = 1\<rparr>"
    by code_simp
  show ?thesis
    using C5_fail_fast[OF h1 h2 h3 h4 h5] h2 h3 by (simp add: e)
qed

lemma item_body_sent:
  "length (sent (snd (item_body drv parse p i w)))
     = length (sent w) + (if isl (build parse p i) then 0 else 1)"
  by (auto simp: item_body_def pool_query_def Let_def split: sum.splits prod.splits)

text \<open>
  C7, as stated, fails: with no input items, a delete without a WHERE clause and the
  default fail-fast policy, the run throws the item's error: it returns no outcome and
  sends no query.
\<close>
theorem C7_empty_input_counterexample:
  "input_items None = []
   \<and> resolve_credentials (getCredentials delete_context) = Inr example_credentials
   \<and> continueOnFail_setting (ctx_settings delete_context) = False
   \<and> execute counting_driver parse_null delete_context None empty_world
       = (Inl (mk_error
            ''WHERE clause is required for DELETE operation to prevent accidental deletion''),
          \<lparr>created = [example_pool], sent = [], ended = 1\<rparr>)"
  by code_simp

text \<open>
  C7, amended. With no input items and credentials at hand, exactly one empty item is
  processed: the run is the body of that single item, it sends one query when the
  statement builds and none otherwise, a run that returns does so with exactly one
  outcome, and a failure of the item under fail-fast is thrown to the caller instead.
\<close>
theorem C7_empty_input:
  assumes "input_items main = []"
      and "resolve_credentials (getCredentials ctx) = Inr c"
  shows "itemsToProcess (input_items main) = [[]]
         \<and> execute drv parse ctx main w
             = (case item_body drv parse (params ctx) 0
                       (new_Pool (execute_pool_config (ctx_settings ctx) c) w) of
                  (Inr j, w') \<Rightarrow> (Inr [j], pool_end w')
                | (Inl e, w') \<Rightarrow>
                    (if continueOnFail_setting (ctx_settings ctx)
                     then Inr [error_record e] else Inl e, pool_end w'))
         \<and> (\<forall>rs. fst (execute drv parse ctx main w) = Inr rs \<longrightarrow> length rs = 1)
         \<and> length (sent (snd (execute drv parse ctx main w)))
             = length (sent w) + (if isl (build parse (params ctx) 0) then 0 else 1)"
proof -
  let ?w1 = "new_Pool (execute_pool_config (ctx_settings ctx) c) w"
  obtain r w' where b: "item_body drv parse (params ctx) 0 ?w1 = (r, w')"
    by (cases "item_body drv parse (params ctx) 0 ?w1")
  have one: "itemsToProcess (input_items main) = [[]]"
    using assms(1) by (simp add: itemsToProcess_def)
  have run: "execute drv parse ctx main w
             = (case item_body drv parse (params ctx) 0 ?w1 of
                  (Inr j, w') \<Rightarrow> (Inr [j], pool_end w')
                | (Inl e, w') \<Rightarrow>
                    (if continueOnFail_setting (ctx_settings ctx)
                     then Inr [error_record e] else Inl e, pool_end w'))"
    using assms(2) by (cases r) (simp_all add: execute_def Let_def one b)
  have len: "\<forall>rs. fst (execute drv parse ctx main w) = Inr rs \<longrightarrow> length rs = 1"
    unfolding run by (cases r) (auto simp: b)
  have "sent (snd (execute drv parse ctx main w)) = sent w'"
    unfolding run by (cases r) (simp_all add: b pool_end_def)
  moreover have "length (sent w') = length (sent ?w1) + (if isl (build parse (params ctx) 0) then 0 else 1)"
    using item_body_sent[of drv parse "params ctx" 0 ?w1] by (simp add: b)
  ultimately have cnt: "length (sent (snd (execute drv parse ctx main w)))
             = length (sent w) + (if isl (build parse (params ctx) 0) then 0 else 1)"
    by (simp add: new_Pool_def)
  show ?thesis using one run len cnt by blast
qed

theorem C7_empty_input_witness:
  "input_items None = []
   \<and> resolve_credentials (getCredentials query_context) = Inr example_credentials
   \<and> execute counting_driver parse_null query_context None empty_world
       = (Inr [QueryOut [[(''id'', JNum 1)]] (JNum 1) JUndefined None],
          \<lparr>created = [example_pool], sent = [(''SELECT 1'', [])], ended = 1\<rparr>)"
proof -
  have h1: "input_items None = []" by code_simp
  have h2: "resolve_credentials (getCredentials query_context) = Inr example_credentials"
    by code_simp
  have b: "item_body counting_driver parse_null (params query_context) 0
             (new_Pool (execute_pool_config (ctx_settings query_context) example_credentials)
                empty_world)
           = (Inr (QueryOut [[(''id'', JNum 1)]] (JNum 1) JUndefined None),
              \<lparr>created = [example_pool], sent = [(''SELECT 1'', [])], ended = 0\<rparr>)"
    by code_simp
  show ?thesis
    using C7_empty_input[OF h1 h2, of counting_driver parse_null empty_world] h1 h2
    by (simp add: b pool_end_def)
qed

text \<open>
  C10. When the settings are undefined or do not define \<^verbatim>\<open>continueOnFail\<close>, the flag
  is false and the run is the run with the flag set to false: the first failing item
  throws its error to the caller and ends the run.
\<close>
theorem C10_default_fail_fast:
  assumes "ctx_settings ctx = None \<or> (\<exists>s. ctx_settings ctx = Some s \<and> continueOnFail s = None)"
  shows "\<not> continueOnFail_setting (ctx_settings ctx)
         \<and> execute drv parse ctx main w
             = execute drv parse (ctx\<lparr>ctx_settings := Some (explicit_fail_fast (ctx_settings ctx))\<rparr>)
                 main w
         \<and> (\<forall>c pre x post rs w1 e w2.
               resolve_credentials (getCredentials ctx) = Inr c
               \<and> itemsToProcess (input_items main) = pre @ x # post
               \<and> item_loop drv parse (params ctx) False 0 pre []
                    (new_Pool (execute_pool_config (ctx_settings ctx) c) w) = (Inr rs, w1)
               \<and> item_body drv parse (params ctx) (length pre) w1 = (Inl e, w2)
               \<longrightarrow> execute drv parse ctx main w = (Inl e, pool_end w2))"
proof -
  have off: "\<not> continueOnFail_setting (ctx_settings ctx)"
    using assms by (auto simp: continueOnFail_setting_def)
  have off': "\<not> continueOnFail_setting (Some (explicit_fail_fast (ctx_settings ctx)))"
    by (simp add: continueOnFail_setting_def explicit_fail_fast_def split: option.splits)
  have cfg: "execute_pool_config (Some (explicit_fail_fast (ctx_settings ctx))) c
               = execute_pool_config (ctx_settings ctx) c" for c
    by (simp add: execute_pool_config_def ssl_setting_def connectionTimeout_setting_def
                  explicit_fail_fast_def split: option.splits)
  have same: "execute drv parse ctx main w
             = execute drv parse (ctx\<lparr>ctx_settings := Some (explicit_fail_fast (ctx_settings ctx))\<rparr>)
                 main w"
    using off off' by (simp add: execute_def Let_def cfg split: sum.splits)
  have abort: "execute drv parse ctx main w = (Inl e, pool_end w2)"
    if "resolve_credentials (getCredentials ctx) = Inr c"
       "itemsToProcess (input_items main) = pre @ x # post"
       "item_loop drv parse (params ctx) False 0 pre []
          (new_Pool (execute_pool_config (ctx_settings ctx) c) w) = (Inr rs, w1)"
       "item_body drv parse (params ctx) (length pre) w1 = (Inl e, w2)"
    for c pre x post rs w1 e w2
    using that(1) off that(2,3,4) by (rule execute_abort)
  show ?thesis using off same abort by blast
qed

theorem C10_default_fail_fast_witness:
  "(\<exists>s. ctx_settings (example_context None) = Some s \<and> continueOnFail s = None)
   \<and> execute counting_driver parse_null (example_context None) three_items empty_world
       = (Inl no_data_insert, \<lparr>created = [example_pool], sent = [jane_insert], ended = 1\<rparr>)"
proof -
  let ?ctx = "example_context None"
  let ?w0 = "new_Pool (execute_pool_config (ctx_settings ?ctx) example_credentials) empty_world"
  let ?w1 = "\<lparr>created = [example_pool], sent = [jane_insert], ended = 0\<rparr>"
  have h0: "\<exists>s. ctx_settings ?ctx = Some s \<and> continueOnFail s = None"
    by (simp add: example_context_def)
  have h1: "resolve_credentials (getCredentials ?ctx) = Inr example_credentials" by code_simp
  have h3: "itemsToProcess (input_items three_items) = [[]] @ [] # [[]]" by code_simp
  have h4: "item_loop counting_driver parse_null (params ?ctx) False 0 [[] :: item] [] ?w0
              = (Inr [InsertOut (Some [(''id'', JNum 1)]) (JNum 1)], ?w1)" by code_simp
  have h5: "item_body counting_driver parse_null (params ?ctx) (length [[] :: item]) ?w1
              = (Inl no_data_insert, ?w1)"
    by code_simp
  have e: "pool_end ?w1 = \<lparr>created = [example_pool], sent = [jane_insert], ended = 1\<rparr>"
    by code_simp
  have "execute counting_driver parse_null ?ctx three_items empty_world
          = (Inl no_data_insert, pool_end ?w1)"
    using C10_default_fail_fast[of ?ctx counting_driver parse_null three_items empty_world,
            OF disjI2, OF h0, THEN conjunct2, THEN conjunct2, rule_format,
            of example_credentials "[[]]" "[]" "[[]]"
               "[InsertOut (Some [(''id'', JNum 1)]) (JNum 1)]" ?w1 no_data_insert ?w1]
          h1 h3 h4 h5
    by blast
  then show ?thesis using h0 by (simp add: e)
qed

section \<open>Listing tables and the self-test\<close>

text \<open>
  C8, as stated, fails: when the driver refuses the connection, \<^verbatim>\<open>getTables\<close> returns
  a list that is not empty. It holds one entry, which carries the diagnostic.
\<close>
theorem C8_listTables_counterexample:
  "refusing_driver (sent empty_world @ [(tables_query, [])]) = Inl refused
   \<and> fst (getTables refusing_driver None (Inr (Some example_credentials)) empty_world)
       = [\<lparr>opt_name = JStr ''Error loading tables - check credentials'', opt_value = JStr [],
           opt_description = ''connect ECONNREFUSED 127.0.0.1:5432''\<rparr>]
   \<and> fst (getTables refusing_driver None (Inr (Some example_credentials)) empty_world) \<noteq> []"
  by code_simp

text \<open>
  C8, amended. With credentials at hand, whenever the driver fails the catalog query,
  \<^verbatim>\<open>getTables\<close> returns normally a list of exactly one entry, a placeholder with an
  empty value whose description is the error's message; the pool has been ended.
\<close>
theorem C8_listTables_failure:
  assumes "g = Inr (Some c)" and "host c \<noteq> []"
      and "drv (sent w @ [(tables_query, [])]) = Inl e"
  shows "getTables drv st g w
           = ([\<lparr>opt_name = JStr ''Error loading tables - check credentials'',
                opt_value = JStr [], opt_description = err_message e\<rparr>],
              w\<lparr>created := created w @ [loadOptions_pool_config st c],
                sent := sent w @ [(tables_query, [])],
                ended := ended w + 1\<rparr>)"
  using assms by (simp add: getTables_def pool_query_def new_Pool_def pool_end_def Let_def)

theorem C8_listTables_failure_witness:
  "host example_credentials \<noteq> []
   \<and> refusing_driver (sent empty_world @ [(tables_query, [])]) = Inl refused
   \<and> getTables refusing_driver None (Inr (Some example_credentials)) empty_world
       = ([\<lparr>opt_name = JStr ''Error loading tables - check credentials'',
            opt_value = JStr [], opt_description = ''connect ECONNREFUSED 127.0.0.1:5432''\<rparr>],
          \<lparr>created = [loadOptions_pool_config None example_credentials],
           sent = [(tables_query, [])], ended = 1\<rparr>)"
proof -
  have h2: "host example_credentials \<noteq> []" by (simp add: example_credentials_def)
  have h3: "refusing_driver (sent empty_world @ [(tables_query, [])]) = Inl refused"
    by (simp add: refusing_driver_def)
  show ?thesis
    using C8_listTables_failure[where g = "Inr (Some example_credentials)"
            and c = example_credentials and drv = refusing_driver and w = empty_world
            and e = refused and st = None] h2 h3
    by (simp add: empty_world_def refused_def)
qed












end
